theory Spec2Isabelle
  imports Main "HOL-Library.Word" "HOL-Library.AList"
begin

unbundle bit_operations_syntax

section \<open>Bytes, fixed-size arrays and results\<close>

text \<open>
  Go's \<^verbatim>\<open>byte\<close> and \<^verbatim>\<open>uint8\<close> are 8-bit words, \<^verbatim>\<open>uint64\<close> is a 64-bit word and
  a \<^verbatim>\<open>[32]byte\<close> array (tree keys, node hashes, asset ids, SHA-256 digests) is a 256-bit
  word; \<open>hash_bytes\<close> is the slice \<^verbatim>\<open>h[:]\<close> of such an array, first byte first.
\<close>

type_synonym byte = "8 word"
type_synonym key = "256 word"

definition hash_bytes :: "256 word \<Rightarrow> byte list" where
  "hash_bytes w = map (\<lambda>i. ucast (drop_bit (8 * (31 - i)) w)) [0..<32]"

text \<open>
  \<^verbatim>\<open>binary.BigEndian.PutUint64(b, v)\<close> of the Go standard library, on an 8-byte buffer:
  \<^verbatim>\<open>b[0] = byte(v >> 56)\<close>, ..., \<^verbatim>\<open>b[7] = byte(v)\<close>.
\<close>

definition PutUint64 :: "64 word \<Rightarrow> byte list" where
  "PutUint64 v =
     [ucast (drop_bit 56 v), ucast (drop_bit 48 v), ucast (drop_bit 40 v),
      ucast (drop_bit 32 v), ucast (drop_bit 24 v), ucast (drop_bit 16 v),
      ucast (drop_bit 8 v), ucast v]"

text \<open>The number a byte string denotes when read most significant byte first.\<close>

definition be_value :: "byte list \<Rightarrow> nat" where
  "be_value bs = foldl (\<lambda>acc b. acc * 256 + unat b) 0 bs"

text \<open>
  Errors are values. \<open>ErrCollaborator\<close> stands for an error handed up by code that is
  not part of the modelled files (the asset-commitment layer, the tree store);
  \<open>Errorf\<close> wraps an error with the message prefix of \<^verbatim>\<open>fmt.Errorf(".. %w", err)\<close>.
  A call either returns a value, returns an error, or panics.
\<close>

datatype error =
    ErrMissingAssetCommitment
  | ErrIntegerOverflow
  | ErrCannotMergeWithoutAssetCommitments
  | ErrAssetIsNil
  | ErrProofTypeMismatch byte byte
  | ErrCollaborator nat
  | Errorf string error

datatype panic = NilDereference | PanicMsg string

datatype 'a result = Ok 'a | Err error | Panic panic

section \<open>The MS-SMT as the commitment layer sees it\<close>

text \<open>
  Modelled from the spec: the package \<^verbatim>\<open>mssmt\<close> is not among the source files. A node
  (\<^verbatim>\<open>mssmt.Node\<close>, \<^verbatim>\<open>mssmt.BranchNode\<close>) is known to its users by the pair (hash, sum)
  it stores.
\<close>

record Node =
  node_hash :: "256 word"
  node_sum :: "64 word"

text \<open>Modelled from the spec: a leaf (\<^verbatim>\<open>mssmt.LeafNode\<close>) is \<open>LeafNode(value_bytes, sum_u64)\<close>.\<close>

record LeafNode =
  leaf_value :: "byte list"
  leaf_sum :: "64 word"

text \<open>Modelled from the spec: \<^verbatim>\<open>mssmt.NewLeafNode\<close> makes the leaf of a value and a sum.\<close>

definition NewLeafNode :: "byte list \<Rightarrow> 64 word \<Rightarrow> LeafNode" where
  "NewLeafNode v s = \<lparr>leaf_value = v, leaf_sum = s\<rparr>"

text \<open>
  Modelled from the spec: \<^verbatim>\<open>mssmt.EmptyLeafNode\<close>, the leaf \<open>EmptyLeaf\<close> of a key that
  holds nothing, has no value and the sum 0.
\<close>

definition EmptyLeafNode :: LeafNode where
  "EmptyLeafNode = NewLeafNode [] 0"

text \<open>Modelled from the spec: a Merkle proof (\<^verbatim>\<open>mssmt.Proof\<close>) is its list of siblings.\<close>

type_synonym mproof = "Node list"

text \<open>
  Modelled from the spec: the tree (\<^verbatim>\<open>mssmt.Tree\<close>) is an authenticated, sum-aggregating
  map from 256-bit keys to leaves, where a key that was never inserted holds the empty
  leaf. \<open>leaf_at\<close> is that map and \<open>sum_total\<close> the sum stored in the root. How the
  leaves are laid out in branches and hashed is not modelled: the root hash is a function
  of the leaves, the parameter \<open>tree_hash\<close> below.
\<close>

record Tree =
  leaf_at :: "key \<Rightarrow> LeafNode"
  sum_total :: "64 word"

text \<open>
  Modelled from the spec: \<^verbatim>\<open>mssmt.NewCompactedTree\<close> over a new default store is the
  empty tree.
\<close>

definition NewCompactedTree :: Tree where
  "NewCompactedTree = \<lparr>leaf_at = (\<lambda>_. EmptyLeafNode), sum_total = 0\<rparr>"

text \<open>
  Modelled from the spec: \<^verbatim>\<open>Tree.Insert\<close> overwrites the leaf of the key and fails with
  \<open>IntegerOverflow\<close> when an ancestor sum would exceed \<open>2^64 - 1\<close>; the root sum is the
  largest of the ancestor sums. A failed insert leaves the tree as it was.
\<close>

definition tree_Insert :: "Tree \<Rightarrow> key \<Rightarrow> LeafNode \<Rightarrow> error + Tree" where
  "tree_Insert t k l =
     (let s = unat (sum_total t) - unat (leaf_sum (leaf_at t k)) + unat (leaf_sum l)
      in if s > 2 ^ 64 - 1 then Inl ErrIntegerOverflow
         else Inr \<lparr>leaf_at = (leaf_at t)(k := l), sum_total = of_nat s\<rparr>)"

text \<open>Modelled from the spec: \<^verbatim>\<open>Tree.Delete\<close>, \<open>Delete(k)\<close> is \<open>Insert(k, EmptyLeaf)\<close>.\<close>

definition tree_Delete :: "Tree \<Rightarrow> key \<Rightarrow> error + Tree" where
  "tree_Delete t k = tree_Insert t k EmptyLeafNode"

section \<open>Collaborators of the commitment package\<close>

text \<open>
  Modelled from the spec: the inner layer (\<^verbatim>\<open>AssetCommitment\<close>) lives in a file that is
  not among the sources. The outer layer reads three of its fields (\<^verbatim>\<open>Version\<close>,
  \<^verbatim>\<open>AssetID\<close>, \<^verbatim>\<open>TreeRoot\<close>) and calls its methods. The three fields are modelled; what
  the inner commitment holds besides them (its assets and its own tree) is the opaque
  component \<open>ac_assets\<close>.
\<close>

record 'x AssetCommitment =
  ac_Version :: byte
  ac_AssetID :: "256 word"
  ac_TreeRoot :: Node
  ac_assets :: 'x

text \<open>
  What the modelled code calls but does not define is collected in one record:
  \<^item> \<open>sha256\<close>: \<^verbatim>\<open>sha256.Sum256\<close> of the Go standard library;
  \<^item> \<open>EmptyTreeRootHash\<close>: the constant \<^verbatim>\<open>mssmt.EmptyTreeRootHash\<close>;
  \<^item> \<open>tree_hash\<close>: the root hash of the tree that holds the given leaves;
  \<^item> \<open>tree_MerkleProof\<close>: \<^verbatim>\<open>Tree.MerkleProof\<close>;
  \<^item> \<open>ac_Copy\<close>: \<^verbatim>\<open>AssetCommitment.Copy\<close>, the content of the new object or an error;
  \<^item> \<open>ac_Merge\<close>: \<^verbatim>\<open>AssetCommitment.Merge\<close>, called on two objects: the error it
    returns (if any), the content of the receiver afterwards and the content of the
    argument afterwards (the method is handed a pointer, so it can write to both);
  \<^item> \<open>ac_AssetProof\<close>: \<^verbatim>\<open>AssetCommitment.AssetProof\<close>.
\<close>

record ('x, 'asset) env =
  sha256 :: "byte list \<Rightarrow> 256 word"
  EmptyTreeRootHash :: "256 word"
  tree_hash :: "(key \<Rightarrow> LeafNode) \<Rightarrow> 256 word"
  tree_MerkleProof :: "Tree \<Rightarrow> key \<Rightarrow> error + mproof"
  ac_Copy :: "'x AssetCommitment \<Rightarrow> error + 'x AssetCommitment"
  ac_Merge :: "'x AssetCommitment \<Rightarrow> 'x AssetCommitment \<Rightarrow>
               error option \<times> 'x AssetCommitment \<times> 'x AssetCommitment"
  ac_AssetProof :: "'x AssetCommitment \<Rightarrow> key \<Rightarrow> error + ('asset option \<times> mproof)"

text \<open>
  Modelled from the spec: \<^verbatim>\<open>Tree.Root\<close> returns the root node, the hash of the leaves
  with their sum; the spec names no error for it.
\<close>

definition tree_Root :: "('x, 'asset) env \<Rightarrow> Tree \<Rightarrow> error + Node" where
  "tree_Root E t = Inr \<lparr>node_hash = tree_hash E (leaf_at t), node_sum = sum_total t\<rparr>"

text \<open>
  Modelled from the spec: \<^verbatim>\<open>AssetCommitment.TaroCommitmentKey\<close>. An inner commitment is
  keyed in the outer tree by its Taproot-Asset-commitment key, the group-key digest or
  the asset id, which is what the \<^verbatim>\<open>AssetID\<close> field holds.
\<close>

definition TaroCommitmentKey :: "'x AssetCommitment \<Rightarrow> key" where
  "TaroCommitmentKey a = ac_AssetID a"

text \<open>
  Modelled from the spec: \<^verbatim>\<open>AssetCommitment.TaroCommitmentLeaf\<close>. The outer leaf of an
  inner commitment is \<open>asset_version || asset_tree_root || asset_sum\<close>, with the inner
  root sum as its sum.
\<close>

definition TaroCommitmentLeaf :: "'x AssetCommitment \<Rightarrow> LeafNode" where
  "TaroCommitmentLeaf a =
     NewLeafNode
       ([ac_Version a] @ hash_bytes (node_hash (ac_TreeRoot a)) @ PutUint64 (node_sum (ac_TreeRoot a)))
       (node_sum (ac_TreeRoot a))"

text \<open>
  Asset commitments are shared through pointers: the map of a Taro commitment holds
  \<^verbatim>\<open>*AssetCommitment\<close>. The heap is the list of all asset-commitment objects allocated so
  far, an address is an index into it, and a nil pointer is \<open>None\<close>. Go has no
  dangling pointers: a pointer that is not nil is the address of an allocated object,
  \<open>p < length h\<close>, and \<open>h ! p\<close> is the object it points to.
\<close>

type_synonym addr = nat
type_synonym 'x heap = "'x AssetCommitment list"

definition alloc :: "'x heap \<Rightarrow> 'x AssetCommitment \<Rightarrow> addr \<times> 'x heap" where
  "alloc h a = (length h, h @ [a])"

section \<open>The Taro commitment\<close>

definition taroMarkerTag :: string where
  "taroMarkerTag = ''taro''"

text \<open>The conversion \<^verbatim>\<open>[]byte(s)\<close> of a string to its bytes.\<close>

definition string_bytes :: "string \<Rightarrow> byte list" where
  "string_bytes s = map (\<lambda>c. of_nat (of_char c)) s"

definition TaroMarker :: "('x, 'asset) env \<Rightarrow> 256 word" where
  "TaroMarker E = sha256 E (string_bytes taroMarkerTag)"

definition TaroCommitmentScriptSize :: nat where
  "TaroCommitmentScriptSize = 1 + 32 + 32 + 8"

definition V0 :: byte where
  "V0 = 0"

text \<open>
  \<^verbatim>\<open>AssetCommitments\<close> is a Go map from keys to pointers. It is an association list with
  distinct keys whose order is the order in which \<^verbatim>\<open>range\<close> visits the entries; the nil
  map of a root-only commitment is \<open>None\<close>. \<^verbatim>\<open>TreeRoot\<close> is a pointer and \<^verbatim>\<open>tree\<close> an
  interface value, both \<open>None\<close> when nil.
\<close>

type_synonym AssetCommitments = "(key \<times> addr) list"

record TaroCommitment =
  Version :: byte
  TreeRoot :: "Node option"
  tree :: "Tree option"
  assetCommitments :: "AssetCommitments option"

fun NewTaroCommitment_loop ::
  "'x heap \<Rightarrow> addr option list \<Rightarrow> byte \<times> Tree \<times> AssetCommitments \<Rightarrow>
   (byte \<times> Tree \<times> AssetCommitments) result" where
  "NewTaroCommitment_loop h [] st = Ok st"
| "NewTaroCommitment_loop h (None # rest) st = Panic NilDereference"
| "NewTaroCommitment_loop h (Some p # rest) (maxVersion, t, m) =
     (let asset = h ! p;
          maxVersion' = (if ac_Version asset > maxVersion then ac_Version asset else maxVersion);
          key = TaroCommitmentKey asset;
          leaf = TaroCommitmentLeaf asset
      in case tree_Insert t key leaf of
           Inl e \<Rightarrow> Err e
         | Inr t' \<Rightarrow> NewTaroCommitment_loop h rest (maxVersion', t', AList.update key p m))"

definition NewTaroCommitment ::
  "('x, 'asset) env \<Rightarrow> 'x heap \<Rightarrow> addr option list \<Rightarrow> TaroCommitment result" where
  "NewTaroCommitment E h assets =
     (case NewTaroCommitment_loop h assets (V0, NewCompactedTree, []) of
        Panic p \<Rightarrow> Panic p
      | Err e \<Rightarrow> Err e
      | Ok (maxVersion, t, m) \<Rightarrow>
          (case tree_Root E t of
             Inl e \<Rightarrow> Err e
           | Inr root \<Rightarrow>
               Ok \<lparr>Version = maxVersion, TreeRoot = Some root, tree = Some t,
                   assetCommitments = Some m\<rparr>))"

text \<open>
  \<^verbatim>\<open>Delete\<close> and \<^verbatim>\<open>Upsert\<close> mutate the receiver and return an error; the model returns
  the outcome together with the receiver as the call leaves it. Calling a method of the
  nil \<^verbatim>\<open>tree\<close> panics, \<^verbatim>\<open>delete\<close> on a nil map does nothing and an assignment into a nil map
  panics.
\<close>

definition Delete ::
  "('x, 'asset) env \<Rightarrow> 'x heap \<Rightarrow> TaroCommitment \<Rightarrow> addr option \<Rightarrow> unit result \<times> TaroCommitment" where
  "Delete E h c asset =
     (case asset of
        None \<Rightarrow> (Err ErrMissingAssetCommitment, c)
      | Some p \<Rightarrow>
          (let key = TaroCommitmentKey (h ! p) in
           case tree c of
             None \<Rightarrow> (Panic NilDereference, c)
           | Some t \<Rightarrow>
               (case tree_Delete t key of
                  Inl e \<Rightarrow> (Err e, c)
                | Inr t' \<Rightarrow>
                    (let c1 = c\<lparr>tree := Some t'\<rparr> in
                     case tree_Root E t' of
                       Inl e \<Rightarrow> (Err e, c1)
                     | Inr root \<Rightarrow>
                         (Ok (),
                          c1\<lparr>TreeRoot := Some root,
                             assetCommitments :=
                               map_option (AList.delete key) (assetCommitments c1)\<rparr>)))))"

definition Upsert ::
  "('x, 'asset) env \<Rightarrow> 'x heap \<Rightarrow> TaroCommitment \<Rightarrow> addr option \<Rightarrow> unit result \<times> TaroCommitment" where
  "Upsert E h c asset =
     (case asset of
        None \<Rightarrow> (Err ErrMissingAssetCommitment, c)
      | Some p \<Rightarrow>
          (let key = TaroCommitmentKey (h ! p);
               leaf = TaroCommitmentLeaf (h ! p);
               finish = (\<lambda>c1 t'.
                 case tree_Root E t' of
                   Inl e \<Rightarrow> (Err e, c1)
                 | Inr root \<Rightarrow> (Ok (), c1\<lparr>TreeRoot := Some root\<rparr>))
           in if node_hash (ac_TreeRoot (h ! p)) = EmptyTreeRootHash E
              then (case tree c of
                      None \<Rightarrow> (Panic NilDereference, c)
                    | Some t \<Rightarrow>
                        (case tree_Delete t key of
                           Inl e \<Rightarrow> (Err e, c)
                         | Inr t' \<Rightarrow>
                             finish
                               (c\<lparr>tree := Some t',
                                  assetCommitments :=
                                    map_option (AList.delete key) (assetCommitments c)\<rparr>)
                               t'))
              else (case tree c of
                      None \<Rightarrow> (Panic NilDereference, c)
                    | Some t \<Rightarrow>
                        (case tree_Insert t key leaf of
                           Inl e \<Rightarrow> (Err e, c)
                         | Inr t' \<Rightarrow>
                             (case assetCommitments c of
                                None \<Rightarrow> (Panic (PanicMsg ''assignment to entry in nil map''),
                                         c\<lparr>tree := Some t'\<rparr>)
                              | Some m \<Rightarrow>
                                  finish
                                    (c\<lparr>tree := Some t',
                                       assetCommitments := Some (AList.update key p m)\<rparr>)
                                    t')))))"

definition NewTaroCommitmentWithRoot :: "byte \<Rightarrow> Node option \<Rightarrow> TaroCommitment" where
  "NewTaroCommitmentWithRoot version root =
     \<lparr>Version = version, TreeRoot = root, tree = None, assetCommitments = None\<rparr>"

text \<open>
  \<^verbatim>\<open>txscript.NewBaseTapLeaf(script)\<close> of btcd pairs the script with the base leaf version
  \<open>0xc0\<close> of BIP-341.
\<close>

record TapLeaf =
  LeafVersion :: byte
  Script :: "byte list"

definition NewBaseTapLeaf :: "byte list \<Rightarrow> TapLeaf" where
  "NewBaseTapLeaf script = \<lparr>LeafVersion = 0xc0, Script = script\<rparr>"

definition TapLeaf_of :: "('x, 'asset) env \<Rightarrow> TaroCommitment \<Rightarrow> panic + TapLeaf" where
  "TapLeaf_of E c =
     (case TreeRoot c of
        None \<Rightarrow> Inl NilDereference
      | Some root \<Rightarrow>
          (let rootHash = node_hash root;
               rootSum = PutUint64 (node_sum root);
               leafParts = [[Version c], hash_bytes (TaroMarker E), hash_bytes rootHash, rootSum];
               leafScript = concat leafParts
           in Inr (NewBaseTapLeaf leafScript)))"

definition IsTaroCommitmentScript :: "('x, 'asset) env \<Rightarrow> byte list \<Rightarrow> bool" where
  "IsTaroCommitmentScript E script =
     (if length script \<noteq> TaroCommitmentScriptSize then False
      else if script ! 0 \<noteq> V0 then False
      else take 32 (drop 1 script) = hash_bytes (TaroMarker E))"

text \<open>
  Modelled from the spec: \<^verbatim>\<open>chanutils.CopyAllErr\<close> is not among the sources. It copies
  every element with its \<^verbatim>\<open>Copy\<close> method and stops at the first error; each copy is a new
  object.
\<close>

fun CopyAllErr ::
  "('x, 'asset) env \<Rightarrow> 'x heap \<Rightarrow> addr list \<Rightarrow> (addr list \<times> 'x heap) result" where
  "CopyAllErr E h [] = Ok ([], h)"
| "CopyAllErr E h (p # ps) =
     (case ac_Copy E (h ! p) of
        Inl e \<Rightarrow> Err e
      | Inr a \<Rightarrow>
          (let (q, h1) = alloc h a in
           case CopyAllErr E h1 ps of
             Ok (qs, h2) \<Rightarrow> Ok (q # qs, h2)
           | Err e \<Rightarrow> Err e
           | Panic x \<Rightarrow> Panic x))"

text \<open>
  \<^verbatim>\<open>Copy\<close> returns a new commitment; the copies of the inner commitments are new
  objects, so the heap is returned with it. \<^verbatim>\<open>maps.Values\<close> lists the map's values in
  the order of the association list; a nil map has length 0 and no values.
\<close>

definition Copy ::
  "('x, 'asset) env \<Rightarrow> 'x heap \<Rightarrow> TaroCommitment \<Rightarrow> (TaroCommitment \<times> 'x heap) result" where
  "Copy E h c =
     (let m = (case assetCommitments c of None \<Rightarrow> [] | Some m \<Rightarrow> m) in
      if length m = 0
      then (case TreeRoot c of
              None \<Rightarrow> Panic NilDereference
            | Some root \<Rightarrow>
                Ok (\<lparr>Version = Version c, TreeRoot = Some root, tree = None,
                     assetCommitments = None\<rparr>, h))
      else (case CopyAllErr E h (map snd m) of
              Panic x \<Rightarrow> Panic x
            | Err e \<Rightarrow> Err e
            | Ok (newAssetCommitments, h') \<Rightarrow>
                (case NewTaroCommitment E h' (map Some newAssetCommitments) of
                   Panic x \<Rightarrow> Panic x
                 | Err e \<Rightarrow> Err e
                 | Ok c' \<Rightarrow> Ok (c', h'))))"

text \<open>
  \<^verbatim>\<open>Merge\<close> mutates the receiver and the inner commitments the receiver points to. The
  model returns the outcome, the receiver and the heap as the call leaves them, also
  when it returns an error half way. Reading a nil map yields \<^verbatim>\<open>ok = false\<close>.
  \<open>Merge_step\<close> is the body of the loop for one entry of the other map. The inner
  merge is called on the receiver's inner commitment and on the copy: what it writes
  goes to these two objects.
\<close>

definition Merge_step ::
  "('x, 'asset) env \<Rightarrow> key \<Rightarrow> addr \<Rightarrow> TaroCommitment \<Rightarrow> 'x heap \<Rightarrow>
   unit result \<times> TaroCommitment \<times> 'x heap" where
  "Merge_step E key otherCommitment c h =
     (case (case (case assetCommitments c of None \<Rightarrow> None | Some m \<Rightarrow> map_of m key) of
              Some existingCommitment \<Rightarrow>
                (case ac_Copy E (h ! otherCommitment) of
                   Inl e \<Rightarrow> Inl (Errorf ''error copying asset commitment: '' e, h)
                 | Inr a \<Rightarrow>
                     (let (commitmentCopy, h1) = alloc h a;
                          (err, merged, argument) =
                            ac_Merge E (h1 ! existingCommitment) (h1 ! commitmentCopy);
                          h2 = h1[commitmentCopy := argument, existingCommitment := merged]
                      in case err of
                           Some e \<Rightarrow> Inl (Errorf ''error merging asset commitment: '' e, h2)
                         | None \<Rightarrow> Inr (existingCommitment, h2)))
            | None \<Rightarrow> Inr (otherCommitment, h)) of
        Inl (e, h') \<Rightarrow> (Err e, c, h')
      | Inr (existingCommitment, h') \<Rightarrow>
          (case ac_Copy E (h' ! existingCommitment) of
             Inl e \<Rightarrow> (Err (Errorf ''error copying asset commitment: '' e), c, h')
           | Inr a \<Rightarrow>
               (let (existingCommitmentCopy, h3) = alloc h' a in
                case Upsert E h3 c (Some existingCommitmentCopy) of
                  (Ok u, c') \<Rightarrow> (Ok (), c', h3)
                | (Err e, c') \<Rightarrow> (Err (Errorf ''error upserting other commitment: '' e), c', h3)
                | (Panic x, c') \<Rightarrow> (Panic x, c', h3))))"

text \<open>The \<^verbatim>\<open>range\<close> loop: one step per entry of the other map, left at the first error.\<close>

fun Merge_loop ::
  "('x, 'asset) env \<Rightarrow> AssetCommitments \<Rightarrow> TaroCommitment \<Rightarrow> 'x heap \<Rightarrow>
   unit result \<times> TaroCommitment \<times> 'x heap" where
  "Merge_loop E [] c h = (Ok (), c, h)"
| "Merge_loop E ((key, otherCommitment) # rest) c h =
     (case Merge_step E key otherCommitment c h of
        (Ok u, c', h') \<Rightarrow> Merge_loop E rest c' h'
      | (Err e, c', h') \<Rightarrow> (Err e, c', h')
      | (Panic x, c', h') \<Rightarrow> (Panic x, c', h'))"

definition Merge ::
  "('x, 'asset) env \<Rightarrow> TaroCommitment \<Rightarrow> TaroCommitment \<Rightarrow> 'x heap \<Rightarrow>
   unit result \<times> TaroCommitment \<times> 'x heap" where
  "Merge E c other h =
     (case assetCommitments other of
        None \<Rightarrow> (Err ErrCannotMergeWithoutAssetCommitments, c, h)
      | Some m \<Rightarrow>
          if length m = 0 then (Ok (), c, h)
          else Merge_loop E m c h)"



record TaroProof =
  tp_Proof :: mproof
  tp_Version :: byte

record AssetProof =
  ap_Proof :: mproof
  ap_Version :: byte
  ap_AssetID :: "256 word"

record Proof =
  p_AssetProof :: "AssetProof option"
  p_TaroProof :: TaroProof

definition TaroCommitment_Proof ::
  "('x, 'asset) env \<Rightarrow> 'x heap \<Rightarrow> TaroCommitment \<Rightarrow> key \<Rightarrow> key \<Rightarrow>
   ('asset option \<times> Proof) result" where
  "TaroCommitment_Proof E h c taroCommitmentKey assetCommitmentKey =
     (case (assetCommitments c, tree c) of
        (Some m, Some t) \<Rightarrow>
          (case tree_MerkleProof E t taroCommitmentKey of
             Inl e \<Rightarrow> Err e
           | Inr merkleProof \<Rightarrow>
               (let proof = \<lparr>p_AssetProof = None,
                             p_TaroProof = \<lparr>tp_Proof = merkleProof, tp_Version = Version c\<rparr>\<rparr>
                in case map_of m taroCommitmentKey of
                     None \<Rightarrow> Ok (None, proof)
                   | Some p \<Rightarrow>
                       (let assetCommitment = h ! p in
                        case ac_AssetProof E assetCommitment assetCommitmentKey of
                          Inl e \<Rightarrow> Err e
                        | Inr (asset, assetProof) \<Rightarrow>
                            Ok (asset,
                                proof\<lparr>p_AssetProof :=
                                  Some \<lparr>ap_Proof = assetProof,
                                        ap_Version = ac_Version assetCommitment,
                                        ap_AssetID = ac_AssetID assetCommitment\<rparr>\<rparr>))))
      | _ \<Rightarrow> Panic (PanicMsg ''missing asset commitments to compute proofs''))"

section \<open>The universe\<close>

type_synonym ProofType = byte

definition ProofTypeUnspecified :: ProofType where "ProofTypeUnspecified = 0"
definition ProofTypeIssuance :: ProofType where "ProofTypeIssuance = 1"
definition ProofTypeTransfer :: ProofType where "ProofTypeTransfer = 2"
definition ProofTypeIgnore :: ProofType where "ProofTypeIgnore = 3"
definition ProofTypeBurn :: ProofType where "ProofTypeBurn = 4"
definition ProofTypeMintSupply :: ProofType where "ProofTypeMintSupply = 5"

text \<open>A group key is kept as its 32-byte Schnorr serialisation; a nil key is \<open>None\<close>.\<close>

record Identifier =
  AssetID :: "256 word"
  GroupKey :: "256 word option"
  ProofType :: ProofType

text \<open>
  The universe code calls three things it does not define: \<^verbatim>\<open>Asset.IsGenesisAsset\<close> of
  the asset package, the \<^verbatim>\<open>UniverseKey\<close> method of whatever implements the \<^verbatim>\<open>LeafKey\<close>
  interface, and \<^verbatim>\<open>mssmt.Proof.Root\<close>, which rebuilds a root from a key, a leaf and the
  siblings of an inclusion proof.
\<close>

record ('a, 'lk) uenv =
  IsGenesisAsset :: "'a \<Rightarrow> bool"
  UniverseKey :: "'lk \<Rightarrow> key"
  proof_Root :: "mproof \<Rightarrow> key \<Rightarrow> LeafNode \<Rightarrow> Node"

definition NewProofTypeFromAsset :: "('a, 'lk) uenv \<Rightarrow> 'a option \<Rightarrow> error + ProofType" where
  "NewProofTypeFromAsset U a =
     (case a of
        None \<Rightarrow> Inl ErrAssetIsNil
      | Some x \<Rightarrow> if IsGenesisAsset U x then Inr ProofTypeIssuance else Inr ProofTypeTransfer)"

definition ValidateProofUniverseType ::
  "('a, 'lk) uenv \<Rightarrow> 'a option \<Rightarrow> Identifier \<Rightarrow> error + unit" where
  "ValidateProofUniverseType U a uniID =
     (case NewProofTypeFromAsset U a of
        Inl err \<Rightarrow> Inl err
      | Inr expectedProofType \<Rightarrow>
          if expectedProofType \<noteq> ProofType uniID
          then Inl (ErrProofTypeMismatch expectedProofType (ProofType uniID))
          else Inr ())"

record ('a, 'g) Leaf =
  GenesisWithGroup :: 'g
  RawProof :: "byte list"
  Asset :: "'a option"
  Amt :: "64 word"
  IsBurn :: bool

definition SmtLeafNode :: "('a, 'lk) uenv \<Rightarrow> ('a, 'g) Leaf \<Rightarrow> panic + LeafNode" where
  "SmtLeafNode U m =
     (case Asset m of
        None \<Rightarrow> Inl NilDereference
      | Some a \<Rightarrow>
          (let amount = (if \<not> IsGenesisAsset U a \<and> \<not> IsBurn m then 1 else Amt m)
           in Inr (NewLeafNode (RawProof m) amount)))"

record ('a, 'g, 'lk) universe_Proof =
  Leaf :: "('a, 'g) Leaf option"
  LeafKey :: "'lk option"
  UniverseRoot :: "Node option"
  UniverseInclusionProof :: "mproof option"
  MultiverseRoot :: "Node option"
  MultiverseInclusionProof :: "mproof option"

text \<open>
  Modelled from the spec: \<^verbatim>\<open>mssmt.IsEqualNode\<close> is not among the sources. Two roots are
  equal when their (hash, sum) pairs are; a nil node equals only a nil node.
\<close>

definition IsEqualNode :: "Node option \<Rightarrow> Node option \<Rightarrow> bool" where
  "IsEqualNode a b =
     (case (a, b) of
        (Some x, Some y) \<Rightarrow> node_hash x = node_hash y \<and> node_sum x = node_sum y
      | (None, None) \<Rightarrow> True
      | _ \<Rightarrow> False)"

definition VerifyRoot ::
  "('a, 'lk) uenv \<Rightarrow> ('a, 'g, 'lk) universe_Proof \<Rightarrow> Node option \<Rightarrow> panic + bool" where
  "VerifyRoot U i expectedRoot =
     (case Leaf i of
        None \<Rightarrow> Inl NilDereference
      | Some m \<Rightarrow>
          (case SmtLeafNode U m of
             Inl x \<Rightarrow> Inl x
           | Inr leafNode \<Rightarrow>
               (case (UniverseInclusionProof i, LeafKey i) of
                  (Some pr, Some lk) \<Rightarrow>
                    (let reconstructedRoot = proof_Root U pr (UniverseKey U lk) leafNode
                     in Inr (IsEqualNode (UniverseRoot i) expectedRoot \<and>
                             IsEqualNode (Some reconstructedRoot) expectedRoot))
                | _ \<Rightarrow> Inl NilDereference)))"

section \<open>Parcels of the freighter\<close>

type_synonym SendState = byte

definition SendStateVirtualCommitmentSelect :: SendState where "SendStateVirtualCommitmentSelect = 0"
definition SendStateVirtualSign :: SendState where "SendStateVirtualSign = 1"
definition SendStateAnchorSign :: SendState where "SendStateAnchorSign = 2"
definition SendStateLogCommit :: SendState where "SendStateLogCommit = 3"
definition SendStateBroadcast :: SendState where "SendStateBroadcast = 4"
definition SendStateWaitTxConf :: SendState where "SendStateWaitTxConf = 5"
definition SendStateStoreProofs :: SendState where "SendStateStoreProofs = 6"
definition SendStateReceiverProofTransfer :: SendState where "SendStateReceiverProofTransfer = 7"
definition SendStateComplete :: SendState where "SendStateComplete = 8"

text \<open>
  The response channels of a parcel (\<^verbatim>\<open>parcelKit\<close>) play no part in \<^verbatim>\<open>pkg\<close> and are left
  out. A virtual packet is known here by its inputs and outputs; \<open>'z\<close> stands for the
  types of the freighter that \<^verbatim>\<open>pkg\<close> leaves at their zero value.
\<close>

record ('i, 'o) VPacket =
  Inputs :: "'i list"
  Outputs :: "'o list"

record 'addr AddressParcel =
  destAddrs :: "'addr list"

record ('i, 'o) PreSignedParcel =
  vPkt :: "('i, 'o) VPacket option"
  inputCommitment :: "TaroCommitment option"

datatype ('addr, 'i, 'o) Parcel =
    IsAddressParcel "'addr AddressParcel"
  | IsPreSignedParcel "('i, 'o) PreSignedParcel"

record ('addr, 'i, 'o, 'z) sendPackage =
  SendState :: SendState
  VirtualPacket :: "('i, 'o) VPacket option"
  PassiveAssets :: "'z list"
  Parcel :: "('addr, 'i, 'o) Parcel option"
  InputCommitment :: "TaroCommitment option"
  AnchorTx :: "'z option"
  OutboundPkg :: "'z option"
  FinalProofs :: "'z option"
  TransferTxConfEvent :: "'z option"

text \<open>The zero value of the struct: what a composite literal leaves unset.\<close>

definition sendPackage_zero :: "('addr, 'i, 'o, 'z) sendPackage" where
  "sendPackage_zero =
     \<lparr>SendState = 0, VirtualPacket = None, PassiveAssets = [], Parcel = None,
      InputCommitment = None, AnchorTx = None, OutboundPkg = None, FinalProofs = None,
      TransferTxConfEvent = None\<rparr>"

definition AddressParcel_pkg :: "'addr AddressParcel \<Rightarrow> ('addr, 'i, 'o, 'z) sendPackage" where
  "AddressParcel_pkg p = sendPackage_zero\<lparr>Parcel := Some (IsAddressParcel p)\<rparr>"

text \<open>
  The log line of \<^verbatim>\<open>PreSignedParcel.pkg\<close> evaluates \<^verbatim>\<open>len(p.vPkt.Outputs)\<close>, which panics
  on a nil packet.
\<close>

definition PreSignedParcel_pkg ::
  "('i, 'o) PreSignedParcel \<Rightarrow> panic + ('addr, 'i, 'o, 'z) sendPackage" where
  "PreSignedParcel_pkg p =
     (case vPkt p of
        None \<Rightarrow> Inl NilDereference
      | Some v \<Rightarrow>
          Inr (sendPackage_zero
                \<lparr>Parcel := Some (IsPreSignedParcel p),
                 SendState := SendStateAnchorSign,
                 VirtualPacket := vPkt p,
                 InputCommitment := inputCommitment p\<rparr>))"

section \<open>Concrete collaborators and inputs\<close>

text \<open>
  Stand-ins for the collaborators and a few concrete objects, at which the theorems
  below are instantiated. The stand-in root hash looks at the leaves under the keys 1
  and 2 only, the stand-in copy of an asset commitment is its content, and the stand-in
  inner merge leaves its argument as it is and adds the root of its argument to the root
  of the receiver, unless the argument is an empty commitment, which changes nothing.
\<close>

definition test_env :: "(unit, unit) env" where
  "test_env =
     \<lparr>sha256 = (\<lambda>bs. of_nat (be_value bs)),
      EmptyTreeRootHash = 7,
      tree_hash = (\<lambda>f. ucast (leaf_sum (f 1)) + 2 * ucast (leaf_sum (f 2))),
      tree_MerkleProof = (\<lambda>t k. Inr []),
      ac_Copy = (\<lambda>a. Inr a),
      ac_Merge = (\<lambda>a b.
        (None,
         (if node_hash (ac_TreeRoot b) = 7 then a
          else a\<lparr>ac_TreeRoot :=
                 \<lparr>node_hash = node_hash (ac_TreeRoot a) + node_hash (ac_TreeRoot b),
                  node_sum = node_sum (ac_TreeRoot a) + node_sum (ac_TreeRoot b)\<rparr>\<rparr>),
         b)),
      ac_AssetProof = (\<lambda>a k. Inr (None, []))\<rparr>"

definition test_uenv :: "(nat, nat) uenv" where
  "test_uenv =
     \<lparr>IsGenesisAsset = (\<lambda>a. a = 0),
      UniverseKey = (\<lambda>lk. of_nat lk),
      proof_Root = (\<lambda>pr k l. \<lparr>node_hash = k + of_nat (length pr), node_sum = leaf_sum l\<rparr>)\<rparr>"

definition transfer_leaf :: "(nat, unit) Leaf" where
  "transfer_leaf =
     \<lparr>GenesisWithGroup = (), RawProof = [1, 2, 3], Asset = Some 7, Amt = 40, IsBurn = False\<rparr>"

definition burn_leaf :: "(nat, unit) Leaf" where
  "burn_leaf =
     \<lparr>GenesisWithGroup = (), RawProof = [4], Asset = Some 7, Amt = 40, IsBurn = True\<rparr>"

definition issuance_leaf :: "(nat, unit) Leaf" where
  "issuance_leaf =
     \<lparr>GenesisWithGroup = (), RawProof = [5], Asset = Some 0, Amt = 1000, IsBurn = False\<rparr>"

definition test_proof :: "(nat, unit, nat) universe_Proof" where
  "test_proof =
     \<lparr>Leaf = Some transfer_leaf, LeafKey = Some 9,
      UniverseRoot = Some \<lparr>node_hash = 11, node_sum = 1\<rparr>,
      UniverseInclusionProof =
        Some [\<lparr>node_hash = 0, node_sum = 0\<rparr>, \<lparr>node_hash = 0, node_sum = 0\<rparr>],
      MultiverseRoot = None, MultiverseInclusionProof = None\<rparr>"

definition acA :: "unit AssetCommitment" where
  "acA = \<lparr>ac_Version = 0, ac_AssetID = 1, ac_TreeRoot = \<lparr>node_hash = 11, node_sum = 100\<rparr>,
          ac_assets = ()\<rparr>"

definition acB :: "unit AssetCommitment" where
  "acB = \<lparr>ac_Version = 1, ac_AssetID = 2, ac_TreeRoot = \<lparr>node_hash = 12, node_sum = 50\<rparr>,
          ac_assets = ()\<rparr>"

text \<open>An inner commitment under the key of \<open>acA\<close> whose tree is empty.\<close>

definition acA_empty :: "unit AssetCommitment" where
  "acA_empty = \<lparr>ac_Version = 0, ac_AssetID = 1, ac_TreeRoot = \<lparr>node_hash = 7, node_sum = 0\<rparr>,
                ac_assets = ()\<rparr>"

definition test_heap :: "unit heap" where
  "test_heap = [acA, acB, acA_empty]"

text \<open>The commitment \<open>NewTaroCommitment\<close> builds from \<open>acA\<close> alone, at address 0.\<close>

definition commitment_A :: TaroCommitment where
  "commitment_A =
     \<lparr>Version = 0,
      TreeRoot = Some \<lparr>node_hash = 100, node_sum = 100\<rparr>,
      tree = Some \<lparr>leaf_at = (\<lambda>_. EmptyLeafNode)(1 := TaroCommitmentLeaf acA), sum_total = 100\<rparr>,
      assetCommitments = Some [(1, 0)]\<rparr>"

text \<open>The commitment \<open>NewTaroCommitment\<close> builds from no asset commitment at all.\<close>

definition commitment_empty :: TaroCommitment where
  "commitment_empty =
     \<lparr>Version = 0, TreeRoot = Some \<lparr>node_hash = 0, node_sum = 0\<rparr>,
      tree = Some NewCompactedTree, assetCommitments = Some []\<rparr>"

definition commitment_root_only :: TaroCommitment where
  "commitment_root_only = NewTaroCommitmentWithRoot 0 (Some \<lparr>node_hash = 5, node_sum = 9\<rparr>)"

text \<open>
  \<open>commitment_A\<close> after \<open>Upsert\<close> of \<open>acB\<close> (address 1), and what \<open>Copy\<close> makes of
  it: the copies of the two inner commitments are the new objects at addresses 3 and 4.
\<close>

definition commitment_AB :: TaroCommitment where
  "commitment_AB =
     \<lparr>Version = 0,
      TreeRoot = Some \<lparr>node_hash = 200, node_sum = 150\<rparr>,
      tree = Some \<lparr>leaf_at = (\<lambda>_. EmptyLeafNode)
                               (1 := TaroCommitmentLeaf acA, 2 := TaroCommitmentLeaf acB),
                   sum_total = 150\<rparr>,
      assetCommitments = Some [(1, 0), (2, 1)]\<rparr>"

definition commitment_AB_copy :: TaroCommitment where
  "commitment_AB_copy =
     \<lparr>Version = 1,
      TreeRoot = Some \<lparr>node_hash = 200, node_sum = 150\<rparr>,
      tree = Some \<lparr>leaf_at = (\<lambda>_. EmptyLeafNode)
                               (1 := TaroCommitmentLeaf acA, 2 := TaroCommitmentLeaf acB),
                   sum_total = 150\<rparr>,
      assetCommitments = Some [(1, 3), (2, 4)]\<rparr>"





text \<open>
  The commitment \<open>NewTaroCommitment\<close> builds from the empty inner commitment
  \<open>acA_empty\<close> alone, at address 0 of a heap that holds nothing else.
\<close>

definition commitment_of_empty :: TaroCommitment where
  "commitment_of_empty =
     \<lparr>Version = 0,
      TreeRoot = Some \<lparr>node_hash = 0, node_sum = 0\<rparr>,
      tree = Some \<lparr>leaf_at = (\<lambda>_. EmptyLeafNode)(1 := TaroCommitmentLeaf acA_empty),
                   sum_total = 0\<rparr>,
      assetCommitments = Some [(1, 0)]\<rparr>"

section \<open>Bytes\<close>

lemma length_hash_bytes: "length (hash_bytes w) = 32"
  by (simp add: hash_bytes_def)

lemma length_PutUint64: "length (PutUint64 v) = 8"
  by (simp add: PutUint64_def)

lemma unat_byte_of:
  "unat (ucast (drop_bit k (v :: 64 word)) :: 8 word) = unat v div 2 ^ k mod 256"
  by (simp only: unsigned_ucast_eq unat_drop_bit_eq) (simp add: take_bit_eq_mod drop_bit_eq_div)

lemma unat_low_byte: "unat (ucast (v :: 64 word) :: 8 word) = unat v div 2 ^ 0 mod 256"
  by (simp add: unsigned_ucast_eq take_bit_eq_mod)

lemma byte_step: "(x div (2 ^ (k + 8))) * 256 + (x div 2 ^ k) mod 256 = (x :: nat) div 2 ^ k"
proof -
  have "x div 2 ^ (k + 8) = (x div 2 ^ k) div 256"
    by (simp add: power_add div_mult2_eq)
  then show ?thesis by simp
qed

lemma taroMarkerTag_bytes: "string_bytes taroMarkerTag = [0x74, 0x61, 0x72, 0x6f]"
  by (simp add: string_bytes_def taroMarkerTag_def)

text \<open>The eight bytes written by \<open>PutUint64\<close> denote the value, most significant first.\<close>

lemma be_value_PutUint64: "be_value (PutUint64 v) = unat v"
proof -
  define x where "x = unat v"
  have lt: "x < 2 ^ 64"
    unfolding x_def using unsigned_less [of v, where ?'a = nat] by simp
  have top: "x div 2 ^ 56 mod 256 = x div 2 ^ 56"
    using lt by (simp add: less_mult_imp_div_less)
  have "be_value (PutUint64 v) =
     (((((((0 * 256 + x div 2 ^ 56 mod 256) * 256 + x div 2 ^ 48 mod 256) * 256
        + x div 2 ^ 40 mod 256) * 256 + x div 2 ^ 32 mod 256) * 256
        + x div 2 ^ 24 mod 256) * 256 + x div 2 ^ 16 mod 256) * 256
        + x div 2 ^ 8 mod 256) * 256 + x div 2 ^ 0 mod 256"
    by (simp only: be_value_def PutUint64_def foldl.simps unat_byte_of)
       (simp only: unat_low_byte x_def)
  also have "\<dots> = x"
    using byte_step [of x 48] byte_step [of x 40] byte_step [of x 32] byte_step [of x 24]
      byte_step [of x 16] byte_step [of x 8] byte_step [of x 0] top
    by simp
  finally show ?thesis by (simp add: x_def)
qed

section \<open>The tapscript leaf of a commitment\<close>

text \<open>
  Claim C1. For a Taro commitment with a root node, \<open>TapLeaf\<close> returns a leaf whose
  script is the version byte, then the 32 bytes of the Taro marker (the SHA-256 digest of
  the tag "taro"), then the 32 bytes of the root hash, then the root sum as 8 big-endian
  bytes: 73 bytes in all, the constant \<open>TaroCommitmentScriptSize\<close>. The script is
  recognised by \<open>IsTaroCommitmentScript\<close> exactly when the version is \<open>V0\<close>.
\<close>

theorem TapLeaf_script:
  assumes "TreeRoot c = Some root"
  shows "\<exists>leaf. TapLeaf_of E c = Inr leaf
           \<and> Script leaf = [Version c] @ hash_bytes (sha256 E (string_bytes ''taro''))
                 @ hash_bytes (node_hash root) @ PutUint64 (node_sum root)
           \<and> length (hash_bytes (sha256 E (string_bytes ''taro''))) = 32
           \<and> length (hash_bytes (node_hash root)) = 32
           \<and> length (PutUint64 (node_sum root)) = 8
           \<and> be_value (PutUint64 (node_sum root)) = unat (node_sum root)
           \<and> length (Script leaf) = 73
           \<and> length (Script leaf) = TaroCommitmentScriptSize
           \<and> (IsTaroCommitmentScript E (Script leaf) \<longleftrightarrow> Version c = V0)"
  using assms
  by (simp add: TapLeaf_of_def NewBaseTapLeaf_def TaroMarker_def taroMarkerTag_def length_hash_bytes
      length_PutUint64 be_value_PutUint64 TaroCommitmentScriptSize_def
      IsTaroCommitmentScript_def)

theorem TapLeaf_script_witness:
  "\<exists>leaf. TapLeaf_of test_env
             \<lparr>Version = 0, TreeRoot = Some \<lparr>node_hash = 5, node_sum = 1000\<rparr>,
              tree = None, assetCommitments = None\<rparr> = Inr leaf
     \<and> length (Script leaf) = 73 \<and> drop 65 (Script leaf) = [0, 0, 0, 0, 0, 0, 3, 232]"
  using TapLeaf_script
    [of "\<lparr>Version = 0, TreeRoot = Some \<lparr>node_hash = 5, node_sum = 1000\<rparr>,
          tree = None, assetCommitments = None\<rparr>"
        "\<lparr>node_hash = 5, node_sum = 1000\<rparr>" test_env]
  by (auto simp add: length_hash_bytes PutUint64_def drop_bit_eq_div)

section \<open>Proofs need the full tree\<close>

text \<open>
  Claim C8. \<open>Proof\<close> on a commitment made by \<open>NewTaroCommitmentWithRoot\<close> panics with
  the message "missing asset commitments to compute proofs", whatever the two keys are,
  and it returns no error there. On any commitment, the call panics exactly when the
  asset-commitment map or the tree is nil: a commitment that kept both never panics.
\<close>

theorem Proof_panics_without_tree:
  "TaroCommitment_Proof E h (NewTaroCommitmentWithRoot version root) k1 k2
     = Panic (PanicMsg ''missing asset commitments to compute proofs'')
   \<and> ((\<exists>x. TaroCommitment_Proof E h c k1 k2 = Panic x)
        \<longleftrightarrow> (assetCommitments c = None \<or> tree c = None))"
  by (auto simp add: TaroCommitment_Proof_def NewTaroCommitmentWithRoot_def Let_def
      split: sum.splits option.splits prod.splits)

theorem Proof_panics_without_tree_witness:
  "TaroCommitment_Proof test_env []
     (NewTaroCommitmentWithRoot 0 (Some \<lparr>node_hash = 5, node_sum = 9\<rparr>)) 1 2
     = Panic (PanicMsg ''missing asset commitments to compute proofs'')"
  using Proof_panics_without_tree [of test_env "[]" 0 "Some \<lparr>node_hash = 5, node_sum = 9\<rparr>" 1 2]
  by simp

section \<open>Universe leaves and roots\<close>

text \<open>
  Claim C5. The MS-SMT leaf node of a universe leaf (one that has its asset) carries the
  raw proof bytes as its value; its sum is the amount of the leaf when the asset is a
  genesis asset or the leaf is a burn, and 1 otherwise.
\<close>

theorem SmtLeafNode_value_and_sum:
  assumes "Asset m = Some a"
  shows "\<exists>n. SmtLeafNode U m = Inr n \<and> leaf_value n = RawProof m
           \<and> leaf_sum n = (if IsGenesisAsset U a \<or> IsBurn m then Amt m else 1)"
  using assms by (simp add: SmtLeafNode_def NewLeafNode_def)

theorem SmtLeafNode_value_and_sum_witness:
  "(\<exists>n. SmtLeafNode test_uenv transfer_leaf = Inr n \<and> leaf_value n = [1, 2, 3] \<and> leaf_sum n = 1)
   \<and> (\<exists>n. SmtLeafNode test_uenv burn_leaf = Inr n \<and> leaf_value n = [4] \<and> leaf_sum n = 40)
   \<and> (\<exists>n. SmtLeafNode test_uenv issuance_leaf = Inr n \<and> leaf_value n = [5]
          \<and> leaf_sum n = 1000)"
  using SmtLeafNode_value_and_sum [of transfer_leaf 7 test_uenv]
    SmtLeafNode_value_and_sum [of burn_leaf 7 test_uenv]
    SmtLeafNode_value_and_sum [of issuance_leaf 0 test_uenv]
  by (simp add: transfer_leaf_def burn_leaf_def issuance_leaf_def test_uenv_def)

lemma IsEqualNode_eq: "IsEqualNode a b \<longleftrightarrow> a = b"
  by (cases a; cases b) (auto simp: IsEqualNode_def)

text \<open>
  Claim C6. For a universe proof that has its leaf (with an asset), its leaf key and its
  inclusion proof, \<open>VerifyRoot\<close> returns true exactly when the expected root is the root
  rebuilt from the leaf node, the universe key and the inclusion proof, and the root
  carried in the proof is the expected root too; it returns false when either fails.
  Roots are compared by hash and sum.
\<close>

theorem VerifyRoot_iff:
  assumes "Leaf i = Some m" and "Asset m = Some a" and "LeafKey i = Some lk"
    and "UniverseInclusionProof i = Some pr"
  shows "VerifyRoot U i expectedRoot =
           Inr (expectedRoot =
                  Some (proof_Root U pr (UniverseKey U lk)
                          \<lparr>leaf_value = RawProof m,
                           leaf_sum = (if IsGenesisAsset U a \<or> IsBurn m then Amt m else 1)\<rparr>)
                \<and> UniverseRoot i = expectedRoot)"
  using assms
  by (auto simp add: VerifyRoot_def SmtLeafNode_def NewLeafNode_def IsEqualNode_eq)

theorem VerifyRoot_iff_witness:
  "VerifyRoot test_uenv test_proof (Some \<lparr>node_hash = 11, node_sum = 1\<rparr>) = Inr True
   \<and> VerifyRoot test_uenv test_proof (Some \<lparr>node_hash = 11, node_sum = 40\<rparr>) = Inr False
   \<and> VerifyRoot test_uenv (test_proof\<lparr>UniverseRoot := Some \<lparr>node_hash = 12, node_sum = 1\<rparr>\<rparr>)
        (Some \<lparr>node_hash = 11, node_sum = 1\<rparr>) = Inr False"
  using
    VerifyRoot_iff [of test_proof transfer_leaf 7 9
      "[\<lparr>node_hash = 0, node_sum = 0\<rparr>, \<lparr>node_hash = 0, node_sum = 0\<rparr>]" test_uenv
      "Some \<lparr>node_hash = 11, node_sum = 1\<rparr>"]
    VerifyRoot_iff [of test_proof transfer_leaf 7 9
      "[\<lparr>node_hash = 0, node_sum = 0\<rparr>, \<lparr>node_hash = 0, node_sum = 0\<rparr>]" test_uenv
      "Some \<lparr>node_hash = 11, node_sum = 40\<rparr>"]
    VerifyRoot_iff [of "test_proof\<lparr>UniverseRoot := Some \<lparr>node_hash = 12, node_sum = 1\<rparr>\<rparr>"
      transfer_leaf 7 9
      "[\<lparr>node_hash = 0, node_sum = 0\<rparr>, \<lparr>node_hash = 0, node_sum = 0\<rparr>]" test_uenv
      "Some \<lparr>node_hash = 11, node_sum = 1\<rparr>"]
  by (simp add: test_proof_def transfer_leaf_def test_uenv_def)

text \<open>
  Claim C9. For a non-nil asset, \<open>NewProofTypeFromAsset\<close> returns issuance (genesis
  asset) or transfer (any other asset) and nothing else, so
  \<open>ValidateProofUniverseType\<close> returns the proof-type-mismatch error against every
  universe identifier whose proof type is neither issuance nor transfer: unspecified,
  ignore, burn and mint-supply among them.
\<close>

theorem ValidateProofUniverseType_rejects:
  assumes "ProofType uniID \<noteq> ProofTypeIssuance" and "ProofType uniID \<noteq> ProofTypeTransfer"
  shows "NewProofTypeFromAsset U (Some a) =
           Inr (if IsGenesisAsset U a then ProofTypeIssuance else ProofTypeTransfer)
         \<and> ValidateProofUniverseType U (Some a) uniID =
           Inl (ErrProofTypeMismatch
                 (if IsGenesisAsset U a then ProofTypeIssuance else ProofTypeTransfer)
                 (ProofType uniID))"
  using assms by (simp add: ValidateProofUniverseType_def NewProofTypeFromAsset_def)

theorem ValidateProofUniverseType_rejects_witness:
  "ValidateProofUniverseType test_uenv (Some 0)
      \<lparr>AssetID = 1, GroupKey = None, ProofType = ProofTypeBurn\<rparr>
     = Inl (ErrProofTypeMismatch ProofTypeIssuance ProofTypeBurn)
   \<and> ValidateProofUniverseType test_uenv (Some 7)
      \<lparr>AssetID = 1, GroupKey = None, ProofType = ProofTypeIgnore\<rparr>
     = Inl (ErrProofTypeMismatch ProofTypeTransfer ProofTypeIgnore)
   \<and> ValidateProofUniverseType test_uenv (Some 7)
      \<lparr>AssetID = 1, GroupKey = None, ProofType = ProofTypeMintSupply\<rparr>
     = Inl (ErrProofTypeMismatch ProofTypeTransfer ProofTypeMintSupply)
   \<and> ValidateProofUniverseType test_uenv (Some 0)
      \<lparr>AssetID = 1, GroupKey = None, ProofType = ProofTypeUnspecified\<rparr>
     = Inl (ErrProofTypeMismatch ProofTypeIssuance ProofTypeUnspecified)"
  using
    ValidateProofUniverseType_rejects
      [of "\<lparr>AssetID = 1, GroupKey = None, ProofType = ProofTypeBurn\<rparr>" test_uenv 0]
    ValidateProofUniverseType_rejects
      [of "\<lparr>AssetID = 1, GroupKey = None, ProofType = ProofTypeIgnore\<rparr>" test_uenv 7]
    ValidateProofUniverseType_rejects
      [of "\<lparr>AssetID = 1, GroupKey = None, ProofType = ProofTypeMintSupply\<rparr>" test_uenv 7]
    ValidateProofUniverseType_rejects
      [of "\<lparr>AssetID = 1, GroupKey = None, ProofType = ProofTypeUnspecified\<rparr>" test_uenv 0]
  by (simp add: test_uenv_def ProofTypeUnspecified_def ProofTypeIssuance_def
      ProofTypeTransfer_def ProofTypeIgnore_def ProofTypeBurn_def ProofTypeMintSupply_def)

section \<open>The first state of a parcel\<close>

text \<open>
  Claim C7. The send package of an address parcel starts in
  \<open>SendStateVirtualCommitmentSelect\<close> and the send package of a pre-signed parcel (one
  that has its virtual packet) starts in \<open>SendStateAnchorSign\<close>. The nine states are
  strictly increasing in the order of their declaration, and
  \<open>SendStateVirtualCommitmentSelect\<close> is the least send state.
\<close>

theorem pkg_initial_send_state:
  assumes "vPkt p = Some v"
  shows "SendState (AddressParcel_pkg a :: ('addr, 'i, 'o, 'z) sendPackage)
           = SendStateVirtualCommitmentSelect
         \<and> (\<exists>s :: ('addr, 'i, 'o, 'z) sendPackage.
               PreSignedParcel_pkg p = Inr s \<and> SendState s = SendStateAnchorSign
               \<and> VirtualPacket s = Some v \<and> InputCommitment s = inputCommitment p)
         \<and> sorted_wrt (<)
             [SendStateVirtualCommitmentSelect, SendStateVirtualSign, SendStateAnchorSign,
              SendStateLogCommit, SendStateBroadcast, SendStateWaitTxConf,
              SendStateStoreProofs, SendStateReceiverProofTransfer, SendStateComplete]
         \<and> (\<forall>s :: SendState. SendStateVirtualCommitmentSelect \<le> s)"
  using assms
  by (simp add: AddressParcel_pkg_def PreSignedParcel_pkg_def sendPackage_zero_def
      SendStateVirtualCommitmentSelect_def SendStateVirtualSign_def SendStateAnchorSign_def
      SendStateLogCommit_def SendStateBroadcast_def SendStateWaitTxConf_def
      SendStateStoreProofs_def SendStateReceiverProofTransfer_def SendStateComplete_def)

theorem pkg_initial_send_state_witness:
  "SendState (AddressParcel_pkg \<lparr>destAddrs = [1 :: nat, 2]\<rparr> :: (nat, nat, nat, unit) sendPackage)
     = 0
   \<and> (\<exists>s :: (nat, nat, nat, unit) sendPackage.
        PreSignedParcel_pkg
          \<lparr>vPkt = Some \<lparr>Inputs = [1 :: nat], Outputs = [2 :: nat, 3]\<rparr>,
           inputCommitment = None\<rparr> = Inr s
        \<and> SendState s = 2)"
  using pkg_initial_send_state
    [of "\<lparr>vPkt = Some \<lparr>Inputs = [1 :: nat], Outputs = [2 :: nat, 3]\<rparr>, inputCommitment = None\<rparr>"
        "\<lparr>Inputs = [1 :: nat], Outputs = [2 :: nat, 3]\<rparr>"
        "\<lparr>destAddrs = [1 :: nat, 2]\<rparr>", where ?'z = unit]
  by (auto simp add: SendStateVirtualCommitmentSelect_def SendStateAnchorSign_def)

section \<open>Upsert of an empty inner commitment\<close>

text \<open>Deleting from the tree never fails: the root sum cannot grow.\<close>

lemma tree_Delete_total:
  "tree_Delete t k =
     Inr \<lparr>leaf_at = (leaf_at t)(k := EmptyLeafNode),
          sum_total = of_nat (unat (sum_total t) - unat (leaf_sum (leaf_at t k)))\<rparr>"
proof -
  have "unat (sum_total t) < 2 ^ 64"
    using unsigned_less [of "sum_total t", where ?'a = nat] by simp
  then have "\<not> unat (sum_total t) - unat (leaf_sum (leaf_at t k)) > 2 ^ 64 - 1"
    by simp
  then show ?thesis
    by (simp add: tree_Delete_def tree_Insert_def EmptyLeafNode_def NewLeafNode_def Let_def)
qed

text \<open>
  Claim C2. For a commitment that has its tree and its map, and an inner commitment
  whose root hash is the empty-tree root hash, \<open>Upsert\<close> does what \<open>Delete\<close> of the
  same inner commitment does: both return without error and leave the same commitment,
  so the same outer root. The key then holds the empty leaf in the tree (not the leaf of
  the empty inner commitment) and no entry in the map.
\<close>

theorem Upsert_empty_is_Delete:
  assumes "node_hash (ac_TreeRoot (h ! p)) = EmptyTreeRootHash E"
    and "tree c = Some t" and "assetCommitments c = Some m"
  shows "Upsert E h c (Some p) = Delete E h c (Some p)
         \<and> (\<exists>c' t' m'. Upsert E h c (Some p) = (Ok (), c')
               \<and> tree c' = Some t' \<and> assetCommitments c' = Some m'
               \<and> leaf_at t' = (leaf_at t)(TaroCommitmentKey (h ! p) := EmptyLeafNode)
               \<and> sum_total t' =
                   of_nat (unat (sum_total t)
                           - unat (leaf_sum (leaf_at t (TaroCommitmentKey (h ! p)))))
               \<and> TreeRoot c' = Some \<lparr>node_hash = tree_hash E (leaf_at t'), node_sum = sum_total t'\<rparr>
               \<and> map_of m' = (map_of m)(TaroCommitmentKey (h ! p) := None)
               \<and> m' = AList.delete (TaroCommitmentKey (h ! p)) m)"
  using assms
  by (simp add: Upsert_def Delete_def tree_Delete_total tree_Root_def Let_def delete_conv')

theorem Upsert_empty_is_Delete_witness:
  "Upsert test_env test_heap commitment_A (Some 2) = Delete test_env test_heap commitment_A (Some 2)
   \<and> fst (Upsert test_env test_heap commitment_A (Some 2)) = Ok ()
   \<and> assetCommitments (snd (Upsert test_env test_heap commitment_A (Some 2))) = Some []
   \<and> TreeRoot (snd (Upsert test_env test_heap commitment_A (Some 2)))
       = Some \<lparr>node_hash = 0, node_sum = 0\<rparr>"
proof -
  define t0 where
    "t0 = \<lparr>leaf_at = (\<lambda>_. EmptyLeafNode)(1 := TaroCommitmentLeaf acA), sum_total = 100\<rparr>"
  have h1: "node_hash (ac_TreeRoot (test_heap ! 2)) = EmptyTreeRootHash test_env"
    by (simp add: test_heap_def acA_empty_def test_env_def)
  have h2: "tree commitment_A = Some t0"
    by (simp add: commitment_A_def t0_def)
  have h3: "assetCommitments commitment_A = Some [(1, 0)]"
    by (simp add: commitment_A_def)
  have k: "TaroCommitmentKey (test_heap ! 2) = 1"
    by (simp add: test_heap_def acA_empty_def TaroCommitmentKey_def)
  from Upsert_empty_is_Delete [OF h1 h2 h3] obtain c' t' m' where
    eq: "Upsert test_env test_heap commitment_A (Some 2)
          = Delete test_env test_heap commitment_A (Some 2)"
    and u: "Upsert test_env test_heap commitment_A (Some 2) = (Ok (), c')"
    and t: "tree c' = Some t'"
    and l: "leaf_at t' = (leaf_at t0)(TaroCommitmentKey (test_heap ! 2) := EmptyLeafNode)"
    and s: "sum_total t' = of_nat (unat (sum_total t0)
              - unat (leaf_sum (leaf_at t0 (TaroCommitmentKey (test_heap ! 2)))))"
    and r: "TreeRoot c' = Some \<lparr>node_hash = tree_hash test_env (leaf_at t'), node_sum = sum_total t'\<rparr>"
    and m: "assetCommitments c' = Some m'"
      "m' = AList.delete (TaroCommitmentKey (test_heap ! 2)) [(1, 0)]"
    by blast
  have S: "sum_total t' = 0"
    using s by (simp add: k t0_def TaroCommitmentLeaf_def NewLeafNode_def acA_def)
  have M: "assetCommitments c' = Some []"
    using m by (simp add: k AList.delete_eq)
  have H: "tree_hash test_env (leaf_at t') = 0"
    using l by (simp add: k t0_def test_env_def EmptyLeafNode_def NewLeafNode_def)
  have R: "TreeRoot c' = Some \<lparr>node_hash = 0, node_sum = 0\<rparr>"
    using r by (simp add: S H)
  have D: "Delete test_env test_heap commitment_A (Some 2) = (Ok (), c')"
    using eq u by simp
  show ?thesis
    by (simp add: u D R M)
qed

section \<open>Merging commitments\<close>

lemma commitment_empty_built: "NewTaroCommitment test_env [] [] = Ok commitment_empty"
  by (simp add: NewTaroCommitment_def commitment_empty_def tree_Root_def test_env_def V0_def
      NewCompactedTree_def EmptyLeafNode_def NewLeafNode_def)

text \<open>
  Claim C3, as amended. \<open>Merge\<close> returns the error "cannot merge commitments without
  asset commitments" and changes neither the receiver nor any inner commitment whenever
  its argument is root-only (its map is nil), whatever the receiver is. The receiver is
  not examined: a full argument without entries makes \<open>Merge\<close> return nil and change
  nothing, for a root-only receiver too.
\<close>

theorem Merge_refuses_root_only_argument:
  "(assetCommitments other = None \<longrightarrow>
      Merge E c other h = (Err ErrCannotMergeWithoutAssetCommitments, c, h))
   \<and> (assetCommitments other = Some [] \<longrightarrow> Merge E c other h = (Ok (), c, h))"
  by (simp add: Merge_def)

theorem Merge_refuses_root_only_argument_witness:
  "Merge test_env commitment_A commitment_root_only test_heap
     = (Err ErrCannotMergeWithoutAssetCommitments, commitment_A, test_heap)
   \<and> Merge test_env commitment_root_only commitment_root_only test_heap
     = (Err ErrCannotMergeWithoutAssetCommitments, commitment_root_only, test_heap)
   \<and> Merge test_env commitment_A commitment_empty test_heap = (Ok (), commitment_A, test_heap)"
  using Merge_refuses_root_only_argument [of commitment_root_only test_env commitment_A test_heap]
    Merge_refuses_root_only_argument [of commitment_root_only test_env commitment_root_only test_heap]
    Merge_refuses_root_only_argument [of commitment_empty test_env commitment_A test_heap]
  by (simp add: commitment_root_only_def NewTaroCommitmentWithRoot_def commitment_empty_def)

text \<open>
  The claim as stated fails: with a root-only receiver and the full, empty commitment
  that \<open>NewTaroCommitment\<close> builds from no assets, \<open>Merge\<close> returns nil, not the error.
\<close>

theorem Merge_root_only_receiver_counterexample:
  "NewTaroCommitment test_env [] [] = Ok commitment_empty
   \<and> tree commitment_root_only = None \<and> assetCommitments commitment_root_only = None
   \<and> Merge test_env commitment_root_only commitment_empty []
       = (Ok (), commitment_root_only, [])
   \<and> fst (Merge test_env commitment_root_only commitment_empty [])
       \<noteq> Err ErrCannotMergeWithoutAssetCommitments"
  by (simp add: commitment_empty_built Merge_def commitment_empty_def commitment_root_only_def
      NewTaroCommitmentWithRoot_def)

text \<open>
  With a root-only receiver and an argument that has an entry whose copy succeeds, the
  call reaches \<open>Upsert\<close> and panics on the nil tree.
\<close>

lemma Upsert_without_tree_panics:
  "tree c = None \<Longrightarrow> Upsert E h c (Some q) = (Panic NilDereference, c)"
  by (simp add: Upsert_def Let_def)

lemma Merge_root_only_receiver_panics:
  assumes "assetCommitments c = None" and "tree c = None"
    and "assetCommitments other = Some ((k, p) # rest)" and "ac_Copy E (h ! p) = Inr a"
  shows "Merge E c other h = (Panic NilDereference, c, h @ [a])"
  using assms
  by (simp add: Merge_def Merge_step_def alloc_def Upsert_without_tree_panics)









subsection \<open>What Merge leaves alone\<close>




text \<open>
  What the amendment leaves out. For a key the receiver's map holds, the step of the loop
  calls the inner merge on the receiver's own inner commitment, in place: after the step
  that object holds what the inner merge made of it. A commitment that points to the
  same object sees that result.
\<close>

lemma Merge_step_writes_in_place:
  assumes "assetCommitments c = Some m" and "map_of m key = Some p" and "p < length h"
    and "ac_Copy E (h ! q) = Inr a" and "ac_Merge E (h ! p) a = (None, merged, arg)"
  shows "snd (snd (Merge_step E key q c h)) ! p = merged"
proof -
  have ne: "p \<noteq> length h" using assms(3) by simp
  have r: "(h @ [a]) ! p = h ! p" using assms(3) by (simp add: nth_append)
  have w: "((h @ [a])[length h := arg, p := merged]) ! p = merged"
    using assms(3) by simp
  show ?thesis
    using assms(1,2,4,5) r w assms(3)
    by (auto simp add: Merge_step_def alloc_def Let_def nth_append
        split: sum.splits prod.splits result.splits)
qed

lemma leaf_sum_TaroCommitmentLeaf [simp]:
  "leaf_sum (TaroCommitmentLeaf a) = node_sum (ac_TreeRoot a)"
  by (simp add: TaroCommitmentLeaf_def NewLeafNode_def)

lemma commitment_A_built: "NewTaroCommitment test_env test_heap [Some 0] = Ok commitment_A"
  by (simp add: NewTaroCommitment_def test_heap_def acA_def commitment_A_def tree_Insert_def
      NewCompactedTree_def TaroCommitmentKey_def  tree_Root_def
      EmptyLeafNode_def NewLeafNode_def V0_def test_env_def Let_def)




text \<open>
  The receiver and the argument can also be one object, as in \<^verbatim>\<open>c.Merge(c)\<close>: the
  commitment the call leaves is then what the other commitment is after the call. Here
  the commitment holds one entry, an empty inner commitment, which the loop visits once:
  the stand-in merge of an empty copy changes nothing, and \<open>Upsert\<close> of the empty copy
  prunes the entry, so the map of the commitment is empty after the call.
\<close>

lemma commitment_of_empty_built:
  "NewTaroCommitment test_env [acA_empty] [Some 0] = Ok commitment_of_empty"
  by (simp add: NewTaroCommitment_def acA_empty_def commitment_of_empty_def
      tree_Insert_def NewCompactedTree_def TaroCommitmentKey_def tree_Root_def
      EmptyLeafNode_def NewLeafNode_def V0_def test_env_def Let_def)

lemma Merge_into_itself:
  "Merge test_env commitment_of_empty commitment_of_empty [acA_empty] =
     (Ok (),
      \<lparr>Version = 0, TreeRoot = Some \<lparr>node_hash = 0, node_sum = 0\<rparr>,
       tree = Some \<lparr>leaf_at = (\<lambda>_. EmptyLeafNode)(1 := EmptyLeafNode), sum_total = 0\<rparr>,
       assetCommitments = Some []\<rparr>,
      [acA_empty, acA_empty, acA_empty])
   \<and> assetCommitments commitment_of_empty = Some [(1, 0)]"
  by (simp add: Merge_def Merge_step_def Upsert_def alloc_def commitment_of_empty_def
      acA_empty_def tree_Delete_def
      tree_Insert_def TaroCommitmentKey_def tree_Root_def EmptyLeafNode_def NewLeafNode_def
      test_env_def Let_def TaroCommitmentLeaf_def)

section \<open>Copy after Upsert\<close>

lemma commitment_AB_upserted:
  "Upsert test_env test_heap commitment_A (Some 1) = (Ok (), commitment_AB)"
  by (simp add: Upsert_def test_heap_def acA_def acB_def commitment_A_def commitment_AB_def
      tree_Insert_def TaroCommitmentKey_def tree_Root_def EmptyLeafNode_def NewLeafNode_def
      test_env_def Let_def)

lemma commitment_AB_copied:
  "Copy test_env test_heap commitment_AB = Ok (commitment_AB_copy, test_heap @ [acA, acB])"
  by (simp add: Copy_def alloc_def NewTaroCommitment_def test_heap_def acA_def acB_def
      commitment_AB_def commitment_AB_copy_def
      tree_Insert_def TaroCommitmentKey_def tree_Root_def EmptyLeafNode_def NewLeafNode_def
      NewCompactedTree_def V0_def test_env_def Let_def)

text \<open>
  Claim C4 fails on the code. \<open>Upsert\<close> does not touch the \<open>Version\<close> field, which is
  documented as the maximum version of the committed asset commitments, while \<open>Copy\<close>
  rebuilds the commitment with \<open>NewTaroCommitment\<close>, which computes that maximum anew.
  Here a commitment is built from an inner commitment of version 0, an inner commitment
  of version 1 is upserted, and the commitment is copied: the tapscript leaf of the copy
  starts with the byte 1, the leaf of the original with the byte 0, and the two scripts
  agree after that byte.
\<close>

theorem Copy_changes_TapLeaf_after_Upsert:
  "NewTaroCommitment test_env test_heap [Some 0] = Ok commitment_A
   \<and> Upsert test_env test_heap commitment_A (Some 1) = (Ok (), commitment_AB)
   \<and> Copy test_env test_heap commitment_AB = Ok (commitment_AB_copy, test_heap @ [acA, acB])
   \<and> TapLeaf_of test_env commitment_AB_copy \<noteq> TapLeaf_of test_env commitment_AB
   \<and> map_sum id (\<lambda>l. hd (Script l)) (TapLeaf_of test_env commitment_AB) = Inr 0
   \<and> map_sum id (\<lambda>l. hd (Script l)) (TapLeaf_of test_env commitment_AB_copy) = Inr 1
   \<and> map_sum id (\<lambda>l. tl (Script l)) (TapLeaf_of test_env commitment_AB_copy)
       = map_sum id (\<lambda>l. tl (Script l)) (TapLeaf_of test_env commitment_AB)"
  using commitment_A_built commitment_AB_upserted commitment_AB_copied
  by (simp add: TapLeaf_of_def commitment_AB_def commitment_AB_copy_def NewBaseTapLeaf_def)

text \<open>
  Where the claim does hold: for a commitment as \<open>NewTaroCommitment\<close> has just built it
  from inner commitments with distinct keys, and a copy of an inner commitment that
  holds what the original holds, \<open>Copy\<close> succeeds and its result has the same version,
  root and tapscript leaf.
\<close>

lemma update_fresh_key: "k \<notin> fst ` set al \<Longrightarrow> AList.update k v al = al @ [(k, v)]"
  by (induction al) auto

lemma loop_distinct_keys:
  assumes "NewTaroCommitment_loop h (map Some ps) (v, t, m) = Ok (v', t', m')"
    and "distinct (map (\<lambda>p. TaroCommitmentKey (h ! p)) ps)"
    and "\<forall>p\<in>set ps. TaroCommitmentKey (h ! p) \<notin> fst ` set m"
  shows "m' = m @ map (\<lambda>p. (TaroCommitmentKey (h ! p), p)) ps"
  using assms
proof (induction ps arbitrary: v t m)
  case Nil
  then show ?case by simp
next
  case (Cons p ps)
  from Cons.prems(1) obtain t1 where
    ins: "tree_Insert t (TaroCommitmentKey (h ! p)) (TaroCommitmentLeaf (h ! p)) = Inr t1"
    and rest: "NewTaroCommitment_loop h (map Some ps)
        (if ac_Version (h ! p) > v then ac_Version (h ! p) else v, t1,
         AList.update (TaroCommitmentKey (h ! p)) p m) = Ok (v', t', m')"
    by (auto simp add: Let_def split: sum.splits)
  have upd: "AList.update (TaroCommitmentKey (h ! p)) p m = m @ [(TaroCommitmentKey (h ! p), p)]"
    using Cons.prems(3) by (simp add: update_fresh_key)
  have "\<forall>q\<in>set ps. TaroCommitmentKey (h ! q)
          \<notin> fst ` set (AList.update (TaroCommitmentKey (h ! p)) p m)"
  proof
    fix q
    assume q: "q \<in> set ps"
    then have "TaroCommitmentKey (h ! q) \<noteq> TaroCommitmentKey (h ! p)"
      using Cons.prems(2) by (auto simp add: image_iff)
    moreover have "TaroCommitmentKey (h ! q) \<notin> fst ` set m"
      using q Cons.prems(3) by simp
    ultimately show "TaroCommitmentKey (h ! q)
          \<notin> fst ` set (AList.update (TaroCommitmentKey (h ! p)) p m)"
      by (simp add: dom_update)
  qed
  from Cons.IH [OF rest _ this] Cons.prems(2) show ?case by (simp add: upd)
qed

lemma loop_same_summaries:
  assumes "NewTaroCommitment_loop h (map Some ps) (v, t, m) = Ok (v', t', m')"
    and "list_all2 (\<lambda>p q. ac_Version (h2 ! q) = ac_Version (h ! p)
           \<and> ac_AssetID (h2 ! q) = ac_AssetID (h ! p)
           \<and> ac_TreeRoot (h2 ! q) = ac_TreeRoot (h ! p)) ps qs"
  shows "\<exists>m2'. NewTaroCommitment_loop h2 (map Some qs) (v, t, m2) = Ok (v', t', m2')"
  using assms(2,1)
proof (induction ps qs arbitrary: v t m m2 rule: list_all2_induct)
  case Nil
  then show ?case by simp
next
  case (Cons p ps q qs)
  from Cons.prems obtain t1 where
    ins: "tree_Insert t (TaroCommitmentKey (h ! p)) (TaroCommitmentLeaf (h ! p)) = Inr t1"
    and rest: "NewTaroCommitment_loop h (map Some ps)
        (if ac_Version (h ! p) > v then ac_Version (h ! p) else v, t1,
         AList.update (TaroCommitmentKey (h ! p)) p m) = Ok (v', t', m')"
    by (auto simp add: Let_def split: sum.splits)
  have same: "TaroCommitmentKey (h2 ! q) = TaroCommitmentKey (h ! p)"
    "TaroCommitmentLeaf (h2 ! q) = TaroCommitmentLeaf (h ! p)"
    "ac_Version (h2 ! q) = ac_Version (h ! p)"
    using Cons.hyps(1) by (simp_all add: TaroCommitmentKey_def TaroCommitmentLeaf_def)
  from Cons.IH [OF rest, of "AList.update (TaroCommitmentKey (h ! p)) q m2"]
  show ?case by (auto simp add: same ins Let_def)
qed

lemma CopyAllErr_deep:
  assumes "\<forall>a. ac_Copy E a = Inr a" and "\<forall>p\<in>set ps. p < length h"
  shows "CopyAllErr E h ps = Ok ([length h ..< length h + length ps], h @ map ((!) h) ps)"
  using assms(2)
proof (induction ps arbitrary: h)
  case Nil
  then show ?case by simp
next
  case (Cons p ps)
  have v: "\<forall>q\<in>set ps. q < length (h @ [h ! p])" using Cons.prems by auto
  have same: "map ((!) (h @ [h ! p])) ps = map ((!) h) ps"
    using Cons.prems by (auto simp add: nth_append)
  have "[length h ..< length h + length (p # ps)]
         = length h # [Suc (length h) ..< Suc (length h) + length ps]"
    by (simp add: upt_rec)
  then show ?case
    using Cons.IH [OF v] assms(1) by (simp add: alloc_def same)
qed

lemma Copy_of_new_commitment:
  assumes new: "NewTaroCommitment E h (map Some ps) = Ok c" and ne: "ps \<noteq> []"
    and dist: "distinct (map (\<lambda>p. TaroCommitmentKey (h ! p)) ps)"
    and valid: "\<forall>p\<in>set ps. p < length h"
    and copy: "\<forall>a. ac_Copy E a = Inr a"
  shows "\<exists>c2 h2. Copy E h c = Ok (c2, h2) \<and> Version c2 = Version c
           \<and> TreeRoot c2 = TreeRoot c \<and> tree c2 = tree c
           \<and> TapLeaf_of E c2 = TapLeaf_of E c"
proof -
  from new obtain v t m where
    loop: "NewTaroCommitment_loop h (map Some ps) (V0, NewCompactedTree, []) = Ok (v, t, m)"
    and c: "c = \<lparr>Version = v,
                 TreeRoot = Some \<lparr>node_hash = tree_hash E (leaf_at t), node_sum = sum_total t\<rparr>,
                 tree = Some t, assetCommitments = Some m\<rparr>"
    by (auto simp add: NewTaroCommitment_def tree_Root_def split: result.splits)
  from loop_distinct_keys [OF loop dist]
  have m: "m = map (\<lambda>p. (TaroCommitmentKey (h ! p), p)) ps" by simp
  then have snd_m: "map snd m = ps" by (simp add: comp_def)
  define qs where "qs = [length h ..< length h + length ps]"
  define h2 where "h2 = h @ map ((!) h) ps"
  have cp: "CopyAllErr E h (map snd m) = Ok (qs, h2)"
    unfolding snd_m qs_def h2_def by (rule CopyAllErr_deep [OF copy valid])
  have rel: "list_all2 (\<lambda>p q. ac_Version (h2 ! q) = ac_Version (h ! p)
           \<and> ac_AssetID (h2 ! q) = ac_AssetID (h ! p)
           \<and> ac_TreeRoot (h2 ! q) = ac_TreeRoot (h ! p)) ps qs"
    by (simp add: list_all2_conv_all_nth qs_def h2_def nth_append)
  from loop_same_summaries [OF loop rel, of "[]"] obtain m2 where
    loop2: "NewTaroCommitment_loop h2 (map Some qs) (V0, NewCompactedTree, []) = Ok (v, t, m2)"
    by blast
  have "m \<noteq> []" using m ne by simp
  then have "Copy E h c =
      Ok (\<lparr>Version = v,
           TreeRoot = Some \<lparr>node_hash = tree_hash E (leaf_at t), node_sum = sum_total t\<rparr>,
           tree = Some t, assetCommitments = Some m2\<rparr>, h2)"
    using cp loop2 by (simp add: Copy_def c NewTaroCommitment_def tree_Root_def)
  then show ?thesis by (simp add: c TapLeaf_of_def)
qed

lemma Copy_of_commitment_A:
  "\<exists>c2 h2. Copy test_env test_heap commitment_A = Ok (c2, h2)
     \<and> TapLeaf_of test_env c2 = TapLeaf_of test_env commitment_A"
proof -
  have "NewTaroCommitment test_env test_heap (map Some [0]) = Ok commitment_A"
    using commitment_A_built by simp
  from Copy_of_new_commitment [OF this] show ?thesis
    by (simp add: test_heap_def test_env_def) blast
qed

end
